theory Spec2Isabelle
  imports Complex_Main
begin

section \<open>Structured values\<close>

text \<open>
  The values \<open>JSON.parse\<close> returns. A number carries the exact value of its literal (the
  rounding to a double and the sign of zero are not represented); statements about
  numbers are restricted to integers below \<open>2^53\<close>, which a double holds exactly.
  A string is a list of code units below 256. An object is the list of its own
  properties in enumeration order, with distinct keys.
\<close>

datatype json =
    JNull
  | JBool bool
  | JNum rat
  | JStr string
  | JArr "json list"
  | JObj "(string \<times> json) list"

abbreviation dquote :: char where "dquote \<equiv> CHR 0x22"
abbreviation squote :: char where "squote \<equiv> CHR 0x27"
abbreviation backslash :: char where "backslash \<equiv> CHR 0x5C"

definition is_digit :: "char \<Rightarrow> bool" where
  "is_digit c = (48 \<le> (of_char c :: nat) \<and> (of_char c :: nat) \<le> 57)"

definition digit_val :: "char \<Rightarrow> nat" where
  "digit_val c = of_char c - 48"

definition nat_of_digits :: "string \<Rightarrow> nat" where
  "nat_of_digits ds = foldl (\<lambda>n c. 10 * n + digit_val c) 0 ds"

text \<open>
  An array index in the sense of ECMAScript: the canonical decimal text of an integer
  below \<open>2^32 - 1\<close>. Such keys are enumerated first, in ascending order.
\<close>

definition array_index :: "string \<Rightarrow> nat option" where
  "array_index k =
     (if k \<noteq> [] \<and> list_all is_digit k \<and> (k = ''0'' \<or> hd k \<noteq> CHR ''0'')
         \<and> nat_of_digits k < 4294967295
      then Some (nat_of_digits k) else None)"

subsection \<open>Own properties\<close>

fun replace_prop :: "string \<Rightarrow> 'v \<Rightarrow> (string \<times> 'v) list \<Rightarrow> (string \<times> 'v) list" where
  "replace_prop k v [] = []"
| "replace_prop k v ((k', v') # kvs) =
     (if k' = k then (k, v) # kvs else (k', v') # replace_prop k v kvs)"

fun insert_index :: "nat \<Rightarrow> string \<Rightarrow> 'v \<Rightarrow> (string \<times> 'v) list \<Rightarrow> (string \<times> 'v) list" where
  "insert_index i k v [] = [(k, v)]"
| "insert_index i k v ((k', v') # kvs) =
     (case array_index k' of
        Some j \<Rightarrow> if j < i then (k', v') # insert_index i k v kvs else (k, v) # (k', v') # kvs
      | None \<Rightarrow> (k, v) # (k', v') # kvs)"

text \<open>
  Creating the data property \<open>k\<close> on an ordinary object: an existing key keeps its place
  and takes the new value, a new array index goes among the indices in ascending order,
  any other new key goes last.
\<close>

definition obj_put :: "string \<Rightarrow> 'v \<Rightarrow> (string \<times> 'v) list \<Rightarrow> (string \<times> 'v) list" where
  "obj_put k v kvs =
     (if map_of kvs k \<noteq> None then replace_prop k v kvs
      else case array_index k of
             Some i \<Rightarrow> insert_index i k v kvs
           | None \<Rightarrow> kvs @ [(k, v)])"

text \<open>The object spread \<open>{ ...a, ...b }\<close>, on the entry lists of \<open>a\<close> and \<open>b\<close>.\<close>

definition spread :: "(string \<times> 'v) list \<Rightarrow> (string \<times> 'v) list \<Rightarrow> (string \<times> 'v) list" where
  "spread a b = foldl (\<lambda>obj (k, v). obj_put k v obj) a b"

text \<open>
  \<open>Object.prototype.hasOwnProperty.call(x, key)\<close> and \<open>x[key]\<close> for an object or an
  array (an array owns its indices and \<open>length\<close>). \<open>mapSecret\<close> reaches them only
  after \<open>verify\<close> has rejected every primitive and \<open>null\<close>, for which they are left
  at \<open>False\<close> and \<open>None\<close>; \<open>None\<close> stands for \<open>undefined\<close>.
\<close>

fun hasOwnProperty :: "json \<Rightarrow> string \<Rightarrow> bool" where
  "hasOwnProperty (JObj kvs) k = (map_of kvs k \<noteq> None)"
| "hasOwnProperty (JArr xs) k =
     (k = ''length'' \<or> (case array_index k of Some i \<Rightarrow> i < length xs | None \<Rightarrow> False))"
| "hasOwnProperty _ k = False"

fun get_prop :: "json \<Rightarrow> string \<Rightarrow> json option" where
  "get_prop (JObj kvs) k = map_of kvs k"
| "get_prop (JArr xs) k =
     (if k = ''length'' then Some (JNum (of_nat (length xs)))
      else case array_index k of
             Some i \<Rightarrow> if i < length xs then Some (xs ! i) else None
           | None \<Rightarrow> None)"
| "get_prop _ k = None"

fun Object_values :: "json \<Rightarrow> json list" where
  "Object_values (JObj kvs) = map snd kvs"
| "Object_values (JArr xs) = xs"
| "Object_values _ = []"

fun typeof_object :: "json \<Rightarrow> bool" where
  "typeof_object JNull = True"
| "typeof_object (JArr xs) = True"
| "typeof_object (JObj kvs) = True"
| "typeof_object _ = False"

fun typeof_string :: "json option \<Rightarrow> bool" where
  "typeof_string (Some (JStr s)) = True"
| "typeof_string _ = False"

section \<open>JSON.parse\<close>

text \<open>
  The JSON grammar of ECMAScript on texts without a backslash: \<open>parseJson\<close> removes
  every backslash before it calls \<open>JSON.parse\<close>, so the escape sequences of string
  literals are never met, and a backslash inside a string literal is rejected here.
\<close>

datatype token =
    TLBrace | TRBrace | TLBrack | TRBrack | TColon | TComma
  | TStr string | TNum rat | TTrue | TFalse | TNull

definition json_ws :: "char \<Rightarrow> bool" where
  "json_ws c = (c = CHR 0x20 \<or> c = CHR 0x09 \<or> c = CHR 0x0A \<or> c = CHR 0x0D)"

fun lex_string :: "string \<Rightarrow> (string \<times> string) option" where
  "lex_string [] = None"
| "lex_string (c # cs) =
     (if c = dquote then Some ([], cs)
      else if c = backslash \<or> (of_char c :: nat) < 32 then None
      else (case lex_string cs of
              None \<Rightarrow> None
            | Some (s, rest) \<Rightarrow> Some (c # s, rest)))"

definition num_char :: "char \<Rightarrow> bool" where
  "num_char c = (is_digit c \<or> c = CHR ''-'' \<or> c = CHR ''+'' \<or> c = CHR ''.''
                  \<or> c = CHR ''e'' \<or> c = CHR ''E'')"

definition int_digits_ok :: "string \<Rightarrow> bool" where
  "int_digits_ok ds = (ds \<noteq> [] \<and> (ds = ''0'' \<or> hd ds \<noteq> CHR ''0''))"

definition pow10 :: "bool \<Rightarrow> nat \<Rightarrow> rat" where
  "pow10 neg n = (if neg then 1 / 10 ^ n else 10 ^ n)"

text \<open>
  The value of a number literal
  \<open>-? (0 | [1-9][0-9]*) (. [0-9]+)? ([eE] [+-]? [0-9]+)?\<close>, or \<open>None\<close> when the
  text is not one.
\<close>

definition num_value :: "string \<Rightarrow> rat option" where
  "num_value s =
     (let neg = (s \<noteq> [] \<and> hd s = CHR ''-'');
          s1 = (if neg then tl s else s);
          ip = takeWhile is_digit s1;
          s2 = dropWhile is_digit s1;
          has_frac = (s2 \<noteq> [] \<and> hd s2 = CHR ''.'');
          fp = (if has_frac then takeWhile is_digit (tl s2) else []);
          s3 = (if has_frac then dropWhile is_digit (tl s2) else s2);
          has_exp = (s3 \<noteq> [] \<and> (hd s3 = CHR ''e'' \<or> hd s3 = CHR ''E''));
          s4 = (if has_exp then tl s3 else s3);
          has_sign = (has_exp \<and> s4 \<noteq> [] \<and> (hd s4 = CHR ''-'' \<or> hd s4 = CHR ''+''));
          eneg = (has_sign \<and> hd s4 = CHR ''-'');
          s5 = (if has_sign then tl s4 else s4);
          ep = (if has_exp then takeWhile is_digit s5 else []);
          s6 = (if has_exp then dropWhile is_digit s5 else s5)
      in if int_digits_ok ip \<and> (has_frac \<longrightarrow> fp \<noteq> []) \<and> (has_exp \<longrightarrow> ep \<noteq> []) \<and> s6 = []
         then Some ((if neg then - 1 else 1)
                    * (of_nat (nat_of_digits ip) + of_nat (nat_of_digits fp) / 10 ^ length fp)
                    * pow10 eneg (nat_of_digits ep))
         else None)"

function lex :: "string \<Rightarrow> token list option" where
  "lex [] = Some []"
| "lex (c # cs) =
     (if json_ws c then lex cs
      else if c = CHR ''{'' then map_option ((#) TLBrace) (lex cs)
      else if c = CHR ''}'' then map_option ((#) TRBrace) (lex cs)
      else if c = CHR ''['' then map_option ((#) TLBrack) (lex cs)
      else if c = CHR '']'' then map_option ((#) TRBrack) (lex cs)
      else if c = CHR '':'' then map_option ((#) TColon) (lex cs)
      else if c = CHR '','' then map_option ((#) TComma) (lex cs)
      else if c = dquote then
        (case lex_string cs of
           None \<Rightarrow> None
         | Some (s, rest) \<Rightarrow> map_option ((#) (TStr s)) (lex rest))
      else if c = CHR ''-'' \<or> is_digit c then
        (case num_value (takeWhile num_char (c # cs)) of
           None \<Rightarrow> None
         | Some r \<Rightarrow> map_option ((#) (TNum r)) (lex (dropWhile num_char cs)))
      else if take 4 (c # cs) = ''true'' then map_option ((#) TTrue) (lex (drop 3 cs))
      else if take 5 (c # cs) = ''false'' then map_option ((#) TFalse) (lex (drop 4 cs))
      else if take 4 (c # cs) = ''null'' then map_option ((#) TNull) (lex (drop 3 cs))
      else None)"
  by pat_completeness auto
termination
proof (relation "measure length")
  have shorter: "length rest < length cs" if "lex_string cs = Some (s, rest)" for cs s rest
    using that by (induction cs arbitrary: s rest) (auto split: if_splits option.splits)
  fix c :: char and cs :: string
  show "(dropWhile num_char cs, c # cs) \<in> measure length"
    using length_dropWhile_le [of num_char cs] by simp
  fix x2 s rest
  assume "lex_string cs = Some x2" and "(s, rest) = x2"
  then show "(rest, c # cs) \<in> measure length"
    using shorter [of cs s rest] by simp
qed auto

text \<open>
  The parser is a pushdown machine over the tokens: a frame is an array or an object
  under construction, and every token takes exactly one step.
\<close>

datatype frame =
    FArr "json list"
  | FObj "(string \<times> json) list" string

datatype pstate =
    SVal "frame list"
  | SArr0 "frame list"
  | SArrNext "json list" "frame list"
  | SObj0 "frame list"
  | SKey "(string \<times> json) list" "frame list"
  | SColon "(string \<times> json) list" string "frame list"
  | SObjNext "(string \<times> json) list" "frame list"
  | SDone json

fun deliver :: "json \<Rightarrow> frame list \<Rightarrow> pstate" where
  "deliver v [] = SDone v"
| "deliver v (FArr es # stk) = SArrNext (es @ [v]) stk"
| "deliver v (FObj ms k # stk) = SObjNext (obj_put k v ms) stk"

fun begin_value :: "frame list \<Rightarrow> token \<Rightarrow> pstate option" where
  "begin_value stk (TStr s) = Some (deliver (JStr s) stk)"
| "begin_value stk (TNum r) = Some (deliver (JNum r) stk)"
| "begin_value stk TTrue = Some (deliver (JBool True) stk)"
| "begin_value stk TFalse = Some (deliver (JBool False) stk)"
| "begin_value stk TNull = Some (deliver JNull stk)"
| "begin_value stk TLBrack = Some (SArr0 stk)"
| "begin_value stk TLBrace = Some (SObj0 stk)"
| "begin_value stk _ = None"

fun step :: "pstate \<Rightarrow> token \<Rightarrow> pstate option" where
  "step (SVal stk) t = begin_value stk t"
| "step (SArr0 stk) t =
     (if t = TRBrack then Some (deliver (JArr []) stk) else begin_value (FArr [] # stk) t)"
| "step (SArrNext es stk) t =
     (if t = TComma then Some (SVal (FArr es # stk))
      else if t = TRBrack then Some (deliver (JArr es) stk)
      else None)"
| "step (SObj0 stk) t =
     (case t of TRBrace \<Rightarrow> Some (deliver (JObj []) stk)
              | TStr k \<Rightarrow> Some (SColon [] k stk)
              | _ \<Rightarrow> None)"
| "step (SKey ms stk) t = (case t of TStr k \<Rightarrow> Some (SColon ms k stk) | _ \<Rightarrow> None)"
| "step (SColon ms k stk) t = (if t = TColon then Some (SVal (FObj ms k # stk)) else None)"
| "step (SObjNext ms stk) t =
     (if t = TComma then Some (SKey ms stk)
      else if t = TRBrace then Some (deliver (JObj ms) stk)
      else None)"
| "step (SDone v) t = None"

fun run :: "pstate \<Rightarrow> token list \<Rightarrow> json option" where
  "run st [] = (case st of SDone v \<Rightarrow> Some v | _ \<Rightarrow> None)"
| "run st (t # ts) = (case step st t of None \<Rightarrow> None | Some st' \<Rightarrow> run st' ts)"

definition JSON_parse :: "string \<Rightarrow> json option" where
  "JSON_parse txt = (case lex txt of None \<Rightarrow> None | Some ts \<Rightarrow> run (SVal []) ts)"

section \<open>The module\<close>

datatype SecretType = basic_credentials | database_credentials | key_value | ssh_key

text \<open>
  A mapping from field names to variable names is the list of its entries, in the order
  in which \<open>Object.entries\<close> enumerates them.
\<close>

record SecretMapping =
  type :: SecretType
  envMapping :: "(string \<times> string) list"

text \<open>
  The five places where the module throws a \<open>TypeError\<close>, each with the values its
  message is built from (the message of the underlying \<open>SyntaxError\<close> is left out).
\<close>

datatype error =
    MissingPayload string
  | InvalidJson string
  | InvalidSecretShape SecretType
  | MissingSecretField string SecretType string
  | NullSecretField string SecretType string

text \<open>
  The state the module works on: \<open>process.env\<close> and the private field \<open>secrets\<close>.
  The store keeps the value assigned to a variable as it is assigned.
\<close>

record state =
  env :: "string \<rightharpoonup> json"
  secrets :: "string \<rightharpoonup> json"

subsection \<open>BaseModule\<close>

definition set_env :: "string \<Rightarrow> json \<Rightarrow> state \<Rightarrow> state" where
  "set_env key v st = st\<lparr>env := (env st)(key \<mapsto> v)\<rparr>"

definition exists :: "state \<Rightarrow> string \<Rightarrow> bool" where
  "exists st key = (env st key \<noteq> None)"

subsection \<open>ScalewaySecrets\<close>

definition verify :: "json \<Rightarrow> SecretType \<Rightarrow> bool" where
  "verify secretValue t =
     (if \<not> typeof_object secretValue \<or> secretValue = JNull then False
      else case t of
        basic_credentials \<Rightarrow>
          typeof_string (get_prop secretValue ''username'') \<and>
          typeof_string (get_prop secretValue ''password'')
      | database_credentials \<Rightarrow>
          typeof_string (get_prop secretValue ''engine'') \<and>
          typeof_string (get_prop secretValue ''username'') \<and>
          typeof_string (get_prop secretValue ''password'') \<and>
          typeof_string (get_prop secretValue ''host'') \<and>
          typeof_string (get_prop secretValue ''dbname'') \<and>
          typeof_string (get_prop secretValue ''port'')
      | key_value \<Rightarrow> list_all (\<lambda>v. typeof_string (Some v)) (Object_values secretValue)
      | ssh_key \<Rightarrow> typeof_string (get_prop secretValue ''ssh_private_key''))"

text \<open>The loop of \<open>mapSecret\<close> over \<open>Object.entries(mapping.envMapping)\<close>.\<close>

fun mapEntries ::
  "json \<Rightarrow> SecretType \<Rightarrow> (string \<times> string) list \<Rightarrow> state \<Rightarrow> (error + unit) \<times> state" where
  "mapEntries secretValue t [] st = (Inr (), st)"
| "mapEntries secretValue t ((key, envVar) # rest) st =
     (if \<not> hasOwnProperty secretValue key then (Inl (MissingSecretField key t envVar), st)
      else case get_prop secretValue key of
             None \<Rightarrow> (Inl (NullSecretField key t envVar), st)
           | Some JNull \<Rightarrow> (Inl (NullSecretField key t envVar), st)
           | Some v \<Rightarrow> mapEntries secretValue t rest (set_env envVar v st))"

definition mapSecret :: "json \<Rightarrow> SecretMapping \<Rightarrow> state \<Rightarrow> (error + unit) \<times> state" where
  "mapSecret secretValue mapping st =
     (if \<not> verify secretValue (type mapping) then (Inl (InvalidSecretShape (type mapping)), st)
      else mapEntries secretValue (type mapping) (envMapping mapping) st)"

text \<open>
  \<open>String.prototype.trim\<close> removes white space and line terminators at both ends; these
  are the ones among the code units below 256.
\<close>

definition js_ws :: "char \<Rightarrow> bool" where
  "js_ws c = (c = CHR 0x09 \<or> c = CHR 0x0A \<or> c = CHR 0x0B \<or> c = CHR 0x0C \<or> c = CHR 0x0D
               \<or> c = CHR 0x20 \<or> c = CHR 0xA0)"

definition trim :: "string \<Rightarrow> string" where
  "trim s = rev (dropWhile js_ws (rev (dropWhile js_ws s)))"

definition startsWith :: "string \<Rightarrow> char \<Rightarrow> bool" where
  "startsWith s c = (s \<noteq> [] \<and> hd s = c)"

definition endsWith :: "string \<Rightarrow> char \<Rightarrow> bool" where
  "endsWith s c = (s \<noteq> [] \<and> last s = c)"

text \<open>
  The text \<open>parseJson\<close> hands to \<open>JSON.parse\<close>: the value of its local variable
  \<open>jsonString\<close> after the quote test; \<open>butlast (tl s)\<close> is \<open>s.slice(1, -1)\<close>.
\<close>

definition strip_quotes :: "string \<Rightarrow> string" where
  "strip_quotes s =
     (if (startsWith s dquote \<and> endsWith s dquote) \<or> (startsWith s squote \<and> endsWith s squote)
      then butlast (tl s) else s)"

definition jsonString :: "string \<Rightarrow> string" where
  "jsonString rawJson = strip_quotes (filter (\<lambda>c. c \<noteq> backslash) (trim rawJson))"

text \<open>A payload is falsy when it is \<open>undefined\<close> or the empty string.\<close>

fun falsy :: "string option \<Rightarrow> bool" where
  "falsy None = True"
| "falsy (Some s) = (s = [])"

definition parseJson :: "string \<Rightarrow> string option \<Rightarrow> error + json" where
  "parseJson name rawJson =
     (if falsy rawJson then Inl (MissingPayload name)
      else case JSON_parse (jsonString (the rawJson)) of
             None \<Rightarrow> Inl (InvalidJson name)
           | Some parsed \<Rightarrow> Inr parsed)"

text \<open>
  A \<open>SecretHandler\<close> is a function with a property \<open>optional\<close>; here a record of the
  two functions, \<open>required\<close> being the call of the handler itself.
\<close>

type_synonym handler_fn = "string \<Rightarrow> string option \<Rightarrow> state \<Rightarrow> (error + unit) \<times> state"

record SecretHandler =
  required :: handler_fn
  optional :: handler_fn

definition handler_body :: "SecretMapping \<Rightarrow> handler_fn" where
  "handler_body mapping name rawJson st =
     (case parseJson name rawJson of
        Inl e \<Rightarrow> (Inl e, st)
      | Inr parsed \<Rightarrow> mapSecret parsed mapping (st\<lparr>secrets := (secrets st)(name \<mapsto> parsed)\<rparr>))"

definition createHandler :: "SecretMapping \<Rightarrow> SecretHandler" where
  "createHandler mapping =
     \<lparr> required = handler_body mapping,
       optional = (\<lambda>name rawJson st.
          if falsy rawJson then (Inr (), st) else handler_body mapping name rawJson st) \<rparr>"

text \<open>
  \<open>makeSecretMethod\<close>: the method it returns, called with an override mapping
  (\<open>None\<close> when the caller passes none, which the default parameter turns into \<open>{}\<close>).
\<close>

definition makeSecretMethod ::
  "((string \<times> string) list \<Rightarrow> SecretMapping) \<Rightarrow> (string \<times> string) list option \<Rightarrow> SecretHandler" where
  "makeSecretMethod mappingFactory mapping =
     createHandler (mappingFactory (case mapping of None \<Rightarrow> [] | Some m \<Rightarrow> m))"

definition makeSecretMethod_optional ::
  "((string \<times> string) list \<Rightarrow> SecretMapping) \<Rightarrow> (string \<times> string) list option \<Rightarrow> handler_fn" where
  "makeSecretMethod_optional mappingFactory mapping =
     optional (makeSecretMethod mappingFactory mapping)"

definition database_factory :: "(string \<times> string) list \<Rightarrow> SecretMapping" where
  "database_factory mapping =
     \<lparr> type = database_credentials,
       envMapping = spread
         [(''engine'', ''DB_CONNECTION''), (''host'', ''DB_HOST''), (''port'', ''DB_PORT''),
          (''username'', ''DB_USER''), (''password'', ''DB_PASSWORD''),
          (''dbname'', ''DB_DATABASE'')] mapping \<rparr>"

definition credentials_factory :: "(string \<times> string) list \<Rightarrow> SecretMapping" where
  "credentials_factory mapping =
     \<lparr> type = basic_credentials,
       envMapping = spread [(''username'', ''USERNAME''), (''password'', ''PASSWORD'')] mapping \<rparr>"

definition kv_factory :: "(string \<times> string) list \<Rightarrow> SecretMapping" where
  "kv_factory mapping = \<lparr> type = key_value, envMapping = mapping \<rparr>"

definition ssh_factory :: "(string \<times> string) list \<Rightarrow> SecretMapping" where
  "ssh_factory mapping = \<lparr> type = ssh_key, envMapping = mapping \<rparr>"

definition database :: "(string \<times> string) list option \<Rightarrow> SecretHandler" where
  "database = makeSecretMethod database_factory"

definition credentials :: "(string \<times> string) list option \<Rightarrow> SecretHandler" where
  "credentials = makeSecretMethod credentials_factory"

definition kv :: "(string \<times> string) list option \<Rightarrow> SecretHandler" where
  "kv = makeSecretMethod kv_factory"

definition ssh :: "(string \<times> string) list option \<Rightarrow> SecretHandler" where
  "ssh = makeSecretMethod ssh_factory"

section \<open>JSON.stringify\<close>












section \<open>Vocabulary of the statements\<close>

text \<open>
  A mapping entry succeeds on a value when the value owns the field and the field is
  neither \<open>undefined\<close> nor \<open>null\<close>; otherwise \<open>mapSecret\<close> throws the error
  \<open>field_error\<close>. \<open>writes\<close> is the store after the assignments of a list of entries, in
  order; \<open>required_fields\<close> lists the fields \<open>verify\<close> tests for each kind.
\<close>

definition field_ok :: "json \<Rightarrow> string \<Rightarrow> bool" where
  "field_ok v k = (hasOwnProperty v k \<and> get_prop v k \<noteq> None \<and> get_prop v k \<noteq> Some JNull)"


definition writes :: "json \<Rightarrow> (string \<times> string) list \<Rightarrow> (string \<rightharpoonup> json) \<Rightarrow> (string \<rightharpoonup> json)" where
  "writes v m e = foldl (\<lambda>e' (k, w). case get_prop v k of None \<Rightarrow> e' | Some x \<Rightarrow> e'(w \<mapsto> x)) e m"


definition st0 :: state where
  "st0 = \<lparr>env = Map.empty, secrets = Map.empty\<rparr>"

text \<open>A \<open>database_credentials\<close> payload without \<open>dbname\<close>.\<close>

definition db_no_dbname :: string where
  "db_no_dbname = ''{\"engine\":\"pg\",\"username\":\"u\",\"password\":\"p\",\"host\":\"h\",\"port\":\"5432\"}''"

text \<open>A \<open>basic_credentials\<close> payload.\<close>

definition creds_ab :: string where
  "creds_ab = ''{\"username\":\"a\",\"password\":\"b\"}''"

text \<open>A complete \<open>database_credentials\<close> payload.\<close>

definition db_full :: string where
  "db_full = ''{\"engine\":\"pg\",\"username\":\"u\",\"password\":\"p\",\"host\":\"h\",\"dbname\":\"d\",\"port\":\"5432\"}''"

text \<open>An \<open>ssh_key\<close> payload, and the empty object wrapped in two layers of quotes.\<close>

definition ssh_payload :: string where
  "ssh_payload = ''{\"ssh_private_key\":\"KEY\"}''"

definition double_quoted :: string where
  "double_quoted = ''\"\"{}\"\"''"













section \<open>Properties of the projection loop\<close>

lemma writes_Nil: "writes v [] e = e"
  by (simp add: writes_def)

lemma writes_Cons:
  "writes v ((k, w) # m) e = writes v m (case get_prop v k of None \<Rightarrow> e | Some x \<Rightarrow> e(w \<mapsto> x))"
  by (simp add: writes_def)


lemma mapEntries_ok:
  "\<forall>(k, w) \<in> set m. field_ok v k \<Longrightarrow>
   mapEntries v t m st = (Inr (), st\<lparr>env := writes v m (env st)\<rparr>)"
proof (induction m arbitrary: st)
  case Nil
  then show ?case by (simp add: writes_Nil)
next
  case (Cons a m)
  obtain k w where a: "a = (k, w)" by (cases a)
  from Cons.prems a obtain x where x: "hasOwnProperty v k" "get_prop v k = Some x" "x \<noteq> JNull"
    by (auto simp: field_ok_def)
  have rest: "\<forall>(k, w) \<in> set m. field_ok v k" using Cons.prems by simp
  have "mapEntries v t (a # m) st = mapEntries v t m (set_env w x st)"
    using x by (cases x) (simp_all add: a)
  also have "\<dots> = (Inr (), (set_env w x st)\<lparr>env := writes v m (env (set_env w x st))\<rparr>)"
    by (rule Cons.IH [OF rest])
  also have "\<dots> = (Inr (), st\<lparr>env := writes v (a # m) (env st)\<rparr>)"
    by (simp add: a writes_Cons set_env_def x)
  finally show ?case .
qed



lemma writes_other: "w \<notin> snd ` set m \<Longrightarrow> writes v m e w = e w"
  by (induction m arbitrary: e) (auto simp: writes_Nil writes_Cons split: option.splits)


section \<open>Evaluation and the handlers\<close>

lemmas eval_defs =
  JSON_parse_def lex.simps json_ws_def is_digit_def obj_put_def array_index_def nat_of_digits_def
  digit_val_def jsonString_def strip_quotes_def startsWith_def endsWith_def trim_def js_ws_def
  parseJson_def

lemma required_createHandler: "required (createHandler mapping) = handler_body mapping"
  by (simp add: createHandler_def)

lemma optional_createHandler:
  "optional (createHandler mapping) name rawJson st =
     (if falsy rawJson then (Inr (), st) else handler_body mapping name rawJson st)"
  by (simp add: createHandler_def)


lemma handler_body_ok:
  assumes "parseJson name rawJson = Inr v" and "verify v (type m)"
    and "\<forall>(k, w) \<in> set (envMapping m). field_ok v k"
  shows "handler_body m name rawJson st =
           (Inr (), st\<lparr>secrets := (secrets st)(name \<mapsto> v),
                         env := writes v (envMapping m) (env st)\<rparr>)"
  using assms(1,2) by (simp add: handler_body_def mapSecret_def mapEntries_ok [OF assms(3)])


lemma parse_creds_ab:
  "parseJson name (Some creds_ab) = Inr (JObj [(''username'', JStr ''a''), (''password'', JStr ''b'')])"
  by (simp add: creds_ab_def eval_defs)

lemma credentials_default:
  "envMapping (credentials_factory []) = [(''username'', ''USERNAME''), (''password'', ''PASSWORD'')]
   \<and> type (credentials_factory []) = basic_credentials"
  by (simp add: credentials_factory_def spread_def)


lemma typeof_string_Some: "typeof_string x \<Longrightarrow> \<exists>s. x = Some (JStr s)"
  by (cases x rule: typeof_string.cases) simp_all

lemma get_prop_own: "get_prop v k = Some x \<Longrightarrow> hasOwnProperty v k"
  by (cases v) (auto split: if_splits option.splits)

lemma string_field_ok: "get_prop v k = Some (JStr s) \<Longrightarrow> field_ok v k"
  using get_prop_own [of v k "JStr s"] by (simp add: field_ok_def)

lemma database_default:
  "envMapping (database_factory []) =
     [(''engine'', ''DB_CONNECTION''), (''host'', ''DB_HOST''), (''port'', ''DB_PORT''),
      (''username'', ''DB_USER''), (''password'', ''DB_PASSWORD''), (''dbname'', ''DB_DATABASE'')]
   \<and> type (database_factory []) = database_credentials"
  by (simp add: database_factory_def spread_def)

lemma database_custom_host:
  "database_factory [(''host'', ''CUSTOM_HOST'')] =
     \<lparr>type = database_credentials,
      envMapping =
        [(''engine'', ''DB_CONNECTION''), (''host'', ''CUSTOM_HOST''), (''port'', ''DB_PORT''),
         (''username'', ''DB_USER''), (''password'', ''DB_PASSWORD''),
         (''dbname'', ''DB_DATABASE'')]\<rparr>"
  by (simp add: database_factory_def spread_def obj_put_def)

lemma verify_database:
  assumes "verify v database_credentials"
  shows "\<exists>e u p h d po.
           get_prop v ''engine'' = Some (JStr e) \<and> get_prop v ''username'' = Some (JStr u) \<and>
           get_prop v ''password'' = Some (JStr p) \<and> get_prop v ''host'' = Some (JStr h) \<and>
           get_prop v ''dbname'' = Some (JStr d) \<and> get_prop v ''port'' = Some (JStr po)"
proof -
  from assms have
    "typeof_string (get_prop v ''engine'')" "typeof_string (get_prop v ''username'')"
    "typeof_string (get_prop v ''password'')" "typeof_string (get_prop v ''host'')"
    "typeof_string (get_prop v ''dbname'')" "typeof_string (get_prop v ''port'')"
    by (simp_all add: verify_def split: if_splits)
  then show ?thesis by (blast dest: typeof_string_Some)
qed

lemma parse_db_full:
  "parseJson name (Some db_full) =
     Inr (JObj [(''engine'', JStr ''pg''), (''username'', JStr ''u''), (''password'', JStr ''p''),
                (''host'', JStr ''h''), (''dbname'', JStr ''d''), (''port'', JStr ''5432'')])"
  by (simp add: db_full_def eval_defs)

lemma parse_ssh_payload:
  "parseJson name (Some ssh_payload) = Inr (JObj [(''ssh_private_key'', JStr ''KEY'')])"
  by (simp add: ssh_payload_def eval_defs)

lemma verify_basic:
  assumes "verify v basic_credentials"
  shows "\<exists>u p. get_prop v ''username'' = Some (JStr u) \<and> get_prop v ''password'' = Some (JStr p)"
proof -
  from assms have
    "typeof_string (get_prop v ''username'')" "typeof_string (get_prop v ''password'')"
    by (simp_all add: verify_def split: if_splits)
  then show ?thesis by (blast dest: typeof_string_Some)
qed

lemma empty_mapping_run:
  assumes "parseJson name rawJson = Inr v" and "verify v (type m)" and "envMapping m = []"
  shows "required (createHandler m) name rawJson st =
           (Inr (), st\<lparr>secrets := (secrets st)(name \<mapsto> v)\<rparr>)"
  using assms by (simp add: required_createHandler handler_body_def mapSecret_def)

lemma trim_Nil: "trim [] = []"
  by (simp add: trim_def)

section \<open>Decimal digits and array indices\<close>



















section \<open>Objects keep their keys in enumeration order\<close>









section \<open>Lexing the text of a value\<close>





declare lex.simps [simp del]
















section \<open>Parsing the tokens of a value\<close>



section \<open>What the parser returns is well formed\<close>













section \<open>The text of a value passes through the preparation unchanged\<close>











section \<open>The claims\<close>

text \<open>
  C8. For every secret name, the optional handler invoked with an absent payload (or an
  empty one, which is falsy too) returns at once: it raises nothing, and it leaves the
  Variable Store and the cache of decoded secrets as they were.
\<close>

theorem optional_absent_noop:
  "optional (createHandler mapping) name None st = (Inr (), st)
   \<and> optional (createHandler mapping) name (Some []) st = (Inr (), st)
   \<and> makeSecretMethod_optional mappingFactory override name None st = (Inr (), st)"
  by (simp add: optional_createHandler makeSecretMethod_optional_def makeSecretMethod_def)

text \<open>
  C3. When the decoded value fails the structural check of the mapping's kind, the
  required handler raises \<open>InvalidSecretShape\<close> before the projection starts: the
  Variable Store is exactly as it was (only the cache has recorded the decoded value).
\<close>

theorem shape_failure_writes_nothing:
  assumes "parseJson name rawJson = Inr v" and "\<not> verify v (type mapping)"
  shows "required (createHandler mapping) name rawJson st =
           (Inl (InvalidSecretShape (type mapping)), st\<lparr>secrets := (secrets st)(name \<mapsto> v)\<rparr>)
         \<and> env (snd (required (createHandler mapping) name rawJson st)) = env st"
  using assms by (simp add: required_createHandler handler_body_def mapSecret_def)

lemma parse_db_no_dbname:
  "parseJson ''SECRET_DATABASE'' (Some db_no_dbname) =
     Inr (JObj [(''engine'', JStr ''pg''), (''username'', JStr ''u''), (''password'', JStr ''p''),
                (''host'', JStr ''h''), (''port'', JStr ''5432'')])"
  by (simp add: db_no_dbname_def eval_defs)

theorem shape_failure_writes_nothing_witness:
  "fst (required (createHandler (database_factory [])) ''SECRET_DATABASE'' (Some db_no_dbname) st0)
     = Inl (InvalidSecretShape database_credentials)
   \<and> env (snd (required (createHandler (database_factory [])) ''SECRET_DATABASE''
                  (Some db_no_dbname) st0)) = Map.empty"
proof -
  let ?v = "JObj [(''engine'', JStr ''pg''), (''username'', JStr ''u''), (''password'', JStr ''p''),
                  (''host'', JStr ''h''), (''port'', JStr ''5432'')]"
  have bad: "\<not> verify ?v (type (database_factory []))"
    by (simp add: verify_def database_factory_def)
  show ?thesis
    using shape_failure_writes_nothing [OF parse_db_no_dbname bad, of st0]
    by (simp add: database_factory_def st0_def)
qed





text \<open>
  C10. For \<open>key_value\<close>, \<open>verify\<close> holds exactly for the non-null values of object type
  whose enumerable own values are all strings. The empty object passes, and projecting
  it with the empty mapping succeeds and writes nothing; an array of strings passes too.
\<close>

theorem key_value_accepts_string_valued:
  "(verify v key_value \<longleftrightarrow>
      typeof_object v \<and> v \<noteq> JNull \<and> (\<forall>x \<in> set (Object_values v). \<exists>s. x = JStr s))
   \<and> verify (JObj []) key_value
   \<and> mapSecret (JObj []) (kv_factory []) st = (Inr (), st)
   \<and> verify (JArr [JStr a, JStr b]) key_value"
proof -
  have str: "typeof_string (Some x) \<longleftrightarrow> (\<exists>s. x = JStr s)" for x
    by (cases x) simp_all
  have "verify v key_value \<longleftrightarrow>
      typeof_object v \<and> v \<noteq> JNull \<and> (\<forall>x \<in> set (Object_values v). \<exists>s. x = JStr s)"
    by (auto simp: verify_def list_all_iff str)
  moreover have "verify (JObj []) key_value" by (simp add: verify_def)
  moreover have "mapSecret (JObj []) (kv_factory []) st = (Inr (), st)"
    by (simp add: mapSecret_def kv_factory_def verify_def)
  moreover have "verify (JArr [JStr a, JStr b]) key_value" by (simp add: verify_def)
  ultimately show ?thesis by blast
qed

theorem key_value_accepts_string_valued_witness:
  "parseJson ''KV'' (Some ''[\"a\",\"b\"]'') = Inr (JArr [JStr ''a'', JStr ''b''])
   \<and> verify (JArr [JStr ''a'', JStr ''b'']) key_value
   \<and> required (kv (Some [(''1'', ''SECOND'')])) ''KV'' (Some ''[\"a\",\"b\"]'') st0
       = (Inr (), \<lparr>env = [''SECOND'' \<mapsto> JStr ''b''],
                    secrets = [''KV'' \<mapsto> JArr [JStr ''a'', JStr ''b'']]\<rparr>)"
proof -
  let ?v = "JArr [JStr ''a'', JStr ''b'']"
  have p: "parseJson ''KV'' (Some ''[\"a\",\"b\"]'') = Inr ?v"
    by (simp add: eval_defs)
  have "typeof_object ?v \<and> ?v \<noteq> JNull \<and> (\<forall>x \<in> set (Object_values ?v). \<exists>s. x = JStr s)"
    by simp
  then have v: "verify ?v key_value"
    using key_value_accepts_string_valued [of ?v st0 "''a''" "''b''"] by blast
  have "required (kv (Some [(''1'', ''SECOND'')])) ''KV'' (Some ''[\"a\",\"b\"]'') st0
       = (Inr (), \<lparr>env = [''SECOND'' \<mapsto> JStr ''b''],
                    secrets = [''KV'' \<mapsto> JArr [JStr ''a'', JStr ''b'']]\<rparr>)"
    using p v
    by (simp add: kv_def makeSecretMethod_def kv_factory_def required_createHandler
        handler_body_def mapSecret_def st0_def set_env_def array_index_def is_digit_def
        nat_of_digits_def digit_val_def)
  with p v show ?thesis by blast
qed




text \<open>
  C5. The \<open>database\<close> method called with the override \<open>{host: "CUSTOM_HOST"}\<close>
  builds its handler from the merged mapping, the defaults with \<open>host\<close> redirected, once,
  before any payload is seen. Invoked on a payload that decodes to a well-formed
  \<open>database_credentials\<close> value, the handler writes \<open>host\<close> to \<open>CUSTOM_HOST\<close>, every
  other field to its default variable, and leaves \<open>DB_HOST\<close> as it was.
\<close>

theorem database_override_host:
  assumes parsed: "parseJson name rawJson = Inr v" and ok: "verify v database_credentials"
  shows "database (Some [(''host'', ''CUSTOM_HOST'')]) =
           createHandler \<lparr>type = database_credentials,
              envMapping =
                [(''engine'', ''DB_CONNECTION''), (''host'', ''CUSTOM_HOST''),
                 (''port'', ''DB_PORT''), (''username'', ''DB_USER''),
                 (''password'', ''DB_PASSWORD''), (''dbname'', ''DB_DATABASE'')]\<rparr>
         \<and> (\<exists>e h po u p d.
               get_prop v ''engine'' = Some (JStr e) \<and> get_prop v ''host'' = Some (JStr h) \<and>
               get_prop v ''port'' = Some (JStr po) \<and> get_prop v ''username'' = Some (JStr u) \<and>
               get_prop v ''password'' = Some (JStr p) \<and> get_prop v ''dbname'' = Some (JStr d) \<and>
               required (database (Some [(''host'', ''CUSTOM_HOST'')])) name rawJson st =
                 (Inr (), st\<lparr>secrets := (secrets st)(name \<mapsto> v),
                              env := (env st)(''DB_CONNECTION'' \<mapsto> JStr e,
                                ''CUSTOM_HOST'' \<mapsto> JStr h, ''DB_PORT'' \<mapsto> JStr po,
                                ''DB_USER'' \<mapsto> JStr u, ''DB_PASSWORD'' \<mapsto> JStr p,
                                ''DB_DATABASE'' \<mapsto> JStr d)\<rparr>))
         \<and> env (snd (required (database (Some [(''host'', ''CUSTOM_HOST'')])) name rawJson st))
               ''DB_HOST'' = env st ''DB_HOST''"
proof -
  let ?m = "database_factory [(''host'', ''CUSTOM_HOST'')]"
  have h: "database (Some [(''host'', ''CUSTOM_HOST'')]) = createHandler ?m"
    by (simp add: database_def makeSecretMethod_def)
  from verify_database [OF ok] obtain e u p h d po where f:
    "get_prop v ''engine'' = Some (JStr e)" "get_prop v ''username'' = Some (JStr u)"
    "get_prop v ''password'' = Some (JStr p)" "get_prop v ''host'' = Some (JStr h)"
    "get_prop v ''dbname'' = Some (JStr d)" "get_prop v ''port'' = Some (JStr po)"
    by blast
  have all_ok: "\<forall>(k, w) \<in> set (envMapping ?m). field_ok v k"
    using f by (simp add: database_custom_host string_field_ok)
  have ty: "verify v (type ?m)" using ok by (simp add: database_custom_host)
  have run: "required (database (Some [(''host'', ''CUSTOM_HOST'')])) name rawJson st =
               (Inr (), st\<lparr>secrets := (secrets st)(name \<mapsto> v),
                            env := (env st)(''DB_CONNECTION'' \<mapsto> JStr e,
                              ''CUSTOM_HOST'' \<mapsto> JStr h, ''DB_PORT'' \<mapsto> JStr po,
                              ''DB_USER'' \<mapsto> JStr u, ''DB_PASSWORD'' \<mapsto> JStr p,
                              ''DB_DATABASE'' \<mapsto> JStr d)\<rparr>)"
    by (simp add: h required_createHandler handler_body_ok [OF parsed ty all_ok])
       (simp add: database_custom_host writes_def f)
  have untouched:
    "env (snd (required (database (Some [(''host'', ''CUSTOM_HOST'')])) name rawJson st))
       ''DB_HOST'' = env st ''DB_HOST''"
    by (simp add: run)
  from h run untouched f show ?thesis
    by (simp add: database_custom_host)
qed

theorem database_override_host_witness:
  "env (snd (required (database (Some [(''host'', ''CUSTOM_HOST'')])) ''SECRET_DATABASE''
               (Some db_full) st0)) ''CUSTOM_HOST'' = Some (JStr ''h'')
   \<and> env (snd (required (database (Some [(''host'', ''CUSTOM_HOST'')])) ''SECRET_DATABASE''
               (Some db_full) st0)) ''DB_HOST'' = None
   \<and> env (snd (required (database (Some [(''host'', ''CUSTOM_HOST'')])) ''SECRET_DATABASE''
               (Some db_full) st0)) ''DB_PORT'' = Some (JStr ''5432'')"
proof -
  let ?v = "JObj [(''engine'', JStr ''pg''), (''username'', JStr ''u''), (''password'', JStr ''p''),
                (''host'', JStr ''h''), (''dbname'', JStr ''d''), (''port'', JStr ''5432'')]"
  have ok: "verify ?v database_credentials" by (simp add: verify_def)
  from database_override_host [OF parse_db_full ok, of "''SECRET_DATABASE''" st0]
  show ?thesis by (auto simp: st0_def)
qed

text \<open>
  C2, as stated, fails for \<open>ssh_key\<close>: the \<open>ssh\<close> method passes the caller's mapping on
  as it is, so with no override the mapping is empty, and the handler invoked on the
  well-formed payload \<open>{"ssh_private_key":"KEY"}\<close> succeeds and writes no variable.
\<close>

theorem ssh_default_mapping_counterexample:
  "envMapping (ssh_factory []) = []
   \<and> required (ssh None) ''SSH'' (Some ssh_payload) st0 =
       (Inr (), \<lparr>env = Map.empty,
                 secrets = [''SSH'' \<mapsto> JObj [(''ssh_private_key'', JStr ''KEY'')]]\<rparr>)"
proof -
  have v: "verify (JObj [(''ssh_private_key'', JStr ''KEY'')]) (type (ssh_factory []))"
    by (simp add: verify_def ssh_factory_def)
  have e: "envMapping (ssh_factory []) = []" by (simp add: ssh_factory_def)
  from empty_mapping_run [OF parse_ssh_payload v e, of "''SSH''" st0] e
  show ?thesis by (simp add: ssh_def makeSecretMethod_def st0_def)
qed

text \<open>
  C2, amended. \<open>basic_credentials\<close> and \<open>database_credentials\<close> have the fixed non-empty
  default mappings below, and a handler built with no override writes every field of a
  well-formed payload to its default variable (so at least one entry). \<open>key_value\<close> and
  \<open>ssh_key\<close> both have the empty default mapping: their handlers built with no override
  succeed on a well-formed payload and leave the Variable Store as it was.
\<close>

theorem default_mappings:
  "envMapping (credentials_factory []) = [(''username'', ''USERNAME''), (''password'', ''PASSWORD'')]
   \<and> envMapping (database_factory []) =
       [(''engine'', ''DB_CONNECTION''), (''host'', ''DB_HOST''), (''port'', ''DB_PORT''),
        (''username'', ''DB_USER''), (''password'', ''DB_PASSWORD''), (''dbname'', ''DB_DATABASE'')]
   \<and> envMapping (kv_factory []) = [] \<and> envMapping (ssh_factory []) = []
   \<and> (parseJson name rawJson = Inr v \<and> verify v basic_credentials \<longrightarrow>
        (\<exists>u p. get_prop v ''username'' = Some (JStr u) \<and> get_prop v ''password'' = Some (JStr p) \<and>
           required (credentials None) name rawJson st =
             (Inr (), st\<lparr>secrets := (secrets st)(name \<mapsto> v),
                          env := (env st)(''USERNAME'' \<mapsto> JStr u, ''PASSWORD'' \<mapsto> JStr p)\<rparr>)))
   \<and> (parseJson name rawJson = Inr v \<and> verify v database_credentials \<longrightarrow>
        (\<exists>e h po u p d.
           get_prop v ''engine'' = Some (JStr e) \<and> get_prop v ''host'' = Some (JStr h) \<and>
           get_prop v ''port'' = Some (JStr po) \<and> get_prop v ''username'' = Some (JStr u) \<and>
           get_prop v ''password'' = Some (JStr p) \<and> get_prop v ''dbname'' = Some (JStr d) \<and>
           required (database None) name rawJson st =
             (Inr (), st\<lparr>secrets := (secrets st)(name \<mapsto> v),
                          env := (env st)(''DB_CONNECTION'' \<mapsto> JStr e, ''DB_HOST'' \<mapsto> JStr h,
                            ''DB_PORT'' \<mapsto> JStr po, ''DB_USER'' \<mapsto> JStr u,
                            ''DB_PASSWORD'' \<mapsto> JStr p, ''DB_DATABASE'' \<mapsto> JStr d)\<rparr>)))
   \<and> (parseJson name rawJson = Inr v \<and> verify v ssh_key \<longrightarrow>
        required (ssh None) name rawJson st = (Inr (), st\<lparr>secrets := (secrets st)(name \<mapsto> v)\<rparr>))
   \<and> (parseJson name rawJson = Inr v \<and> verify v key_value \<longrightarrow>
        required (kv None) name rawJson st = (Inr (), st\<lparr>secrets := (secrets st)(name \<mapsto> v)\<rparr>))"
proof -
  have basic: "\<exists>u p. get_prop v ''username'' = Some (JStr u) \<and> get_prop v ''password'' = Some (JStr p) \<and>
           required (credentials None) name rawJson st =
             (Inr (), st\<lparr>secrets := (secrets st)(name \<mapsto> v),
                          env := (env st)(''USERNAME'' \<mapsto> JStr u, ''PASSWORD'' \<mapsto> JStr p)\<rparr>)"
    if parsed: "parseJson name rawJson = Inr v" and ok: "verify v basic_credentials"
  proof -
    let ?m = "credentials_factory []"
    from verify_basic [OF ok] obtain u p where f:
      "get_prop v ''username'' = Some (JStr u)" "get_prop v ''password'' = Some (JStr p)" by blast
    have all_ok: "\<forall>(k, w) \<in> set (envMapping ?m). field_ok v k"
      using f by (simp add: credentials_default string_field_ok)
    have ty: "verify v (type ?m)" using ok by (simp add: credentials_default)
    have "required (credentials None) name rawJson st =
             (Inr (), st\<lparr>secrets := (secrets st)(name \<mapsto> v),
                          env := (env st)(''USERNAME'' \<mapsto> JStr u, ''PASSWORD'' \<mapsto> JStr p)\<rparr>)"
      by (simp add: credentials_def makeSecretMethod_def required_createHandler
            handler_body_ok [OF parsed ty all_ok])
         (simp add: credentials_default writes_def f)
    with f show ?thesis by blast
  qed
  have db: "\<exists>e h po u p d.
           get_prop v ''engine'' = Some (JStr e) \<and> get_prop v ''host'' = Some (JStr h) \<and>
           get_prop v ''port'' = Some (JStr po) \<and> get_prop v ''username'' = Some (JStr u) \<and>
           get_prop v ''password'' = Some (JStr p) \<and> get_prop v ''dbname'' = Some (JStr d) \<and>
           required (database None) name rawJson st =
             (Inr (), st\<lparr>secrets := (secrets st)(name \<mapsto> v),
                          env := (env st)(''DB_CONNECTION'' \<mapsto> JStr e, ''DB_HOST'' \<mapsto> JStr h,
                            ''DB_PORT'' \<mapsto> JStr po, ''DB_USER'' \<mapsto> JStr u,
                            ''DB_PASSWORD'' \<mapsto> JStr p, ''DB_DATABASE'' \<mapsto> JStr d)\<rparr>)"
    if parsed: "parseJson name rawJson = Inr v" and ok: "verify v database_credentials"
  proof -
    let ?m = "database_factory []"
    from verify_database [OF ok] obtain e u p h d po where f:
      "get_prop v ''engine'' = Some (JStr e)" "get_prop v ''username'' = Some (JStr u)"
      "get_prop v ''password'' = Some (JStr p)" "get_prop v ''host'' = Some (JStr h)"
      "get_prop v ''dbname'' = Some (JStr d)" "get_prop v ''port'' = Some (JStr po)"
      by blast
    have all_ok: "\<forall>(k, w) \<in> set (envMapping ?m). field_ok v k"
      using f by (simp add: database_default string_field_ok)
    have ty: "verify v (type ?m)" using ok by (simp add: database_default)
    have "required (database None) name rawJson st =
             (Inr (), st\<lparr>secrets := (secrets st)(name \<mapsto> v),
                          env := (env st)(''DB_CONNECTION'' \<mapsto> JStr e, ''DB_HOST'' \<mapsto> JStr h,
                            ''DB_PORT'' \<mapsto> JStr po, ''DB_USER'' \<mapsto> JStr u,
                            ''DB_PASSWORD'' \<mapsto> JStr p, ''DB_DATABASE'' \<mapsto> JStr d)\<rparr>)"
      by (simp add: database_def makeSecretMethod_def required_createHandler
            handler_body_ok [OF parsed ty all_ok])
         (simp add: database_default writes_def f)
    with f show ?thesis by blast
  qed
  have sshk: "required (ssh None) name rawJson st =
                (Inr (), st\<lparr>secrets := (secrets st)(name \<mapsto> v)\<rparr>)"
    if "parseJson name rawJson = Inr v" and "verify v ssh_key"
    using that empty_mapping_run [of name rawJson v "ssh_factory []" st]
    by (simp add: ssh_def makeSecretMethod_def ssh_factory_def)
  have kvk: "required (kv None) name rawJson st =
                (Inr (), st\<lparr>secrets := (secrets st)(name \<mapsto> v)\<rparr>)"
    if "parseJson name rawJson = Inr v" and "verify v key_value"
    using that empty_mapping_run [of name rawJson v "kv_factory []" st]
    by (simp add: kv_def makeSecretMethod_def kv_factory_def)
  have maps: "envMapping (kv_factory []) = [] \<and> envMapping (ssh_factory []) = []"
    by (simp add: kv_factory_def ssh_factory_def)
  from basic db sshk kvk maps credentials_default database_default show ?thesis
    by blast
qed

theorem default_mappings_witness:
  "required (credentials None) ''API'' (Some creds_ab) st0 =
     (Inr (), \<lparr>env = [''USERNAME'' \<mapsto> JStr ''a'', ''PASSWORD'' \<mapsto> JStr ''b''],
               secrets = [''API'' \<mapsto> JObj [(''username'', JStr ''a''), (''password'', JStr ''b'')]]\<rparr>)"
proof -
  let ?v = "JObj [(''username'', JStr ''a''), (''password'', JStr ''b'')]"
  have ok: "verify ?v basic_credentials" by (simp add: verify_def)
  from default_mappings [of "''API''" "Some creds_ab" ?v st0] parse_creds_ab [of "''API''"] ok
  show ?thesis by (auto simp: st0_def)
qed

text \<open>
  C6. Quote stripping happens once. When the payload, trimmed and without its
  backslashes, is \<open>q\<close>, then any text \<open>inner\<close>, then \<open>q\<close>, for \<open>q\<close> the double or the
  single quote, the text handed to \<open>JSON.parse\<close> is exactly \<open>inner\<close>: one pair has gone
  and \<open>inner\<close> is not unwrapped again, also when it is itself wrapped in quotes.
\<close>

theorem quotes_stripped_once:
  assumes q: "q = dquote \<or> q = squote"
    and wrapped: "filter (\<lambda>c. c \<noteq> backslash) (trim rawJson) = q # inner @ [q]"
  shows "jsonString rawJson = inner
         \<and> parseJson name (Some rawJson) =
             (case JSON_parse inner of None \<Rightarrow> Inl (InvalidJson name) | Some parsed \<Rightarrow> Inr parsed)"
proof -
  have js: "jsonString rawJson = inner"
    using q by (auto simp: jsonString_def wrapped strip_quotes_def startsWith_def endsWith_def)
  have "rawJson \<noteq> []" using wrapped by (auto simp: trim_Nil)
  then show ?thesis by (simp add: parseJson_def js)
qed

theorem quotes_stripped_once_witness:
  "jsonString double_quoted = ''\"{}\"''
   \<and> parseJson ''S'' (Some double_quoted) = Inr (JStr ''{}'')"
proof -
  have q: "dquote = dquote \<or> dquote = squote" by simp
  have w: "filter (\<lambda>c. c \<noteq> backslash) (trim double_quoted) = dquote # ''\"{}\"'' @ [dquote]"
    by (simp add: double_quoted_def trim_def js_ws_def)
  have p: "JSON_parse ''\"{}\"'' = Some (JStr ''{}'')"
    by (simp add: JSON_parse_def lex.simps json_ws_def is_digit_def)
  from quotes_stripped_once [OF q w, of "''S''"] p show ?thesis by simp
qed




end
